theory Spec2Isabelle
  imports Complex_Main
begin

section \<open>Python floats\<close>

text \<open>
  The beta monitor of \<^verbatim>\<open>Cali_Housing_Model.py\<close> works on Python floats. A float is
  modelled as a real number, one of the two infinities, or NaN. Comparisons follow
  IEEE 754 as Python implements them: every comparison with NaN is false. Arithmetic is
  exact on the finite values (rounding, overflow and the sign of zero are not modelled).
\<close>

datatype pyfloat = Finite real | PosInf | NegInf | NaN

text \<open>Python's \<^verbatim>\<open>a <= b\<close> on floats.\<close>

fun fle :: "pyfloat \<Rightarrow> pyfloat \<Rightarrow> bool" where
  "fle (Finite a) (Finite b) = (a \<le> b)"
| "fle NaN _ = False"
| "fle _ NaN = False"
| "fle NegInf _ = True"
| "fle _ PosInf = True"
| "fle _ _ = False"

text \<open>Python's \<^verbatim>\<open>a < b\<close> on floats.\<close>

fun flt :: "pyfloat \<Rightarrow> pyfloat \<Rightarrow> bool" where
  "flt (Finite a) (Finite b) = (a < b)"
| "flt NaN _ = False"
| "flt _ NaN = False"
| "flt NegInf NegInf = False"
| "flt NegInf _ = True"
| "flt PosInf _ = False"
| "flt _ PosInf = True"
| "flt _ _ = False"

fun fneg :: "pyfloat \<Rightarrow> pyfloat" where
  "fneg (Finite a) = Finite (- a)"
| "fneg PosInf = NegInf"
| "fneg NegInf = PosInf"
| "fneg NaN = NaN"

text \<open>Python's \<^verbatim>\<open>a + b\<close> on floats.\<close>

fun fadd :: "pyfloat \<Rightarrow> pyfloat \<Rightarrow> pyfloat" where
  "fadd (Finite a) (Finite b) = Finite (a + b)"
| "fadd NaN _ = NaN"
| "fadd _ NaN = NaN"
| "fadd PosInf NegInf = NaN"
| "fadd NegInf PosInf = NaN"
| "fadd PosInf _ = PosInf"
| "fadd _ PosInf = PosInf"
| "fadd NegInf _ = NegInf"
| "fadd _ NegInf = NegInf"

text \<open>Python's \<^verbatim>\<open>a - b\<close> on floats.\<close>

definition fsub :: "pyfloat \<Rightarrow> pyfloat \<Rightarrow> pyfloat" where
  "fsub a b = fadd a (fneg b)"

text \<open>Python's \<^verbatim>\<open>a * b\<close> on floats.\<close>

fun fmul :: "pyfloat \<Rightarrow> pyfloat \<Rightarrow> pyfloat" where
  "fmul (Finite a) (Finite b) = Finite (a * b)"
| "fmul NaN _ = NaN"
| "fmul _ NaN = NaN"
| "fmul (Finite a) PosInf = (if a = 0 then NaN else if 0 < a then PosInf else NegInf)"
| "fmul (Finite a) NegInf = (if a = 0 then NaN else if 0 < a then NegInf else PosInf)"
| "fmul PosInf (Finite b) = (if b = 0 then NaN else if 0 < b then PosInf else NegInf)"
| "fmul NegInf (Finite b) = (if b = 0 then NaN else if 0 < b then NegInf else PosInf)"
| "fmul PosInf PosInf = PosInf"
| "fmul PosInf NegInf = NegInf"
| "fmul NegInf PosInf = NegInf"
| "fmul NegInf NegInf = PosInf"

text \<open>
  Python's \<^verbatim>\<open>a / c\<close> for a float literal \<open>c\<close>. The source divides by the literals
  \<^verbatim>\<open>0.5\<close>, \<^verbatim>\<open>0.6\<close> and \<^verbatim>\<open>0.8\<close> only, so the \<^verbatim>\<open>ZeroDivisionError\<close> of a zero
  divisor has no call site; the model gives NaN there.
\<close>

definition fdiv :: "pyfloat \<Rightarrow> real \<Rightarrow> pyfloat" where
  "fdiv a c =
     (if c = 0 then NaN
      else case a of
        Finite x \<Rightarrow> Finite (x / c)
      | PosInf \<Rightarrow> (if 0 < c then PosInf else NegInf)
      | NegInf \<Rightarrow> (if 0 < c then NegInf else PosInf)
      | NaN \<Rightarrow> NaN)"

text \<open>
  Python's builtin \<^verbatim>\<open>min(a, b)\<close>: the first argument is kept unless the second
  compares strictly smaller, so \<^verbatim>\<open>min(1.0, nan)\<close> is \<^verbatim>\<open>1.0\<close>.
\<close>

definition py_min :: "pyfloat \<Rightarrow> pyfloat \<Rightarrow> pyfloat" where
  "py_min a b = (if flt b a then b else a)"

section \<open>Callbacks and exceptions\<close>

text \<open>
  A raised object is either an instance of \<^verbatim>\<open>Exception\<close> or a \<^verbatim>\<open>BaseException\<close>
  outside \<^verbatim>\<open>Exception\<close> (\<^verbatim>\<open>KeyboardInterrupt\<close>, \<^verbatim>\<open>SystemExit\<close>, \<^verbatim>\<open>GeneratorExit\<close>,
  carrying the class name). The handler \<^verbatim>\<open>except Exception\<close> catches the first kind
  only. An \<^verbatim>\<open>Exception\<close> carries what \<^verbatim>\<open>str(e)\<close> does, since the handler of
  \<^verbatim>\<open>_notify_callbacks\<close> formats the exception into its log message: \<open>Inr msg\<close> when
  \<^verbatim>\<open>__str__\<close> returns the text \<open>msg\<close>, \<open>Inl e'\<close> when \<^verbatim>\<open>__str__\<close> itself raises
  \<open>e'\<close>.
\<close>

datatype py_exception = Exception "py_exception + string" | BaseException string

text \<open>
  A callback acts on a state \<open>'w\<close> of its own (everything outside the monitor that the
  subscribers touch). It returns normally or raises; the effects it had before raising
  stay. A callback that calls back into the monitor or assigns its attributes is outside
  this type. The records that the logging calls write are not kept.
\<close>

datatype 'w outcome = Returned 'w | Raised py_exception 'w

type_synonym 'w callback = "string \<Rightarrow> pyfloat \<Rightarrow> 'w \<Rightarrow> 'w outcome"

fun world_after :: "'w outcome \<Rightarrow> 'w" where
  "world_after (Returned w) = w"
| "world_after (Raised e w) = w"

text \<open>
  The outcomes of a callback that \<^verbatim>\<open>_notify_callbacks\<close> does not absorb: a
  \<^verbatim>\<open>BaseException\<close> outside \<^verbatim>\<open>Exception\<close>, and an \<^verbatim>\<open>Exception\<close> whose \<^verbatim>\<open>__str__\<close>
  raises.
\<close>

fun escapes :: "'w outcome \<Rightarrow> bool" where
  "escapes (Raised (BaseException n) w) = True"
| "escapes (Raised (Exception (Inl e')) w) = True"
| "escapes _ = False"

section \<open>BetaMonitor\<close>

record 'w BetaMonitor =
  reference_beta :: pyfloat
  alert_threshold :: pyfloat
  critical_threshold :: pyfloat
  emergency_threshold :: pyfloat
  current_beta :: pyfloat
  beta_history :: "pyfloat list"
  alert_status :: string
  alert_callbacks :: "'w callback list"
  monitor_active :: bool

text \<open>\<^verbatim>\<open>BetaMonitor.__init__\<close>; the thread handle is left out.\<close>

definition BetaMonitor_init ::
  "pyfloat \<Rightarrow> pyfloat \<Rightarrow> pyfloat \<Rightarrow> pyfloat \<Rightarrow> 'w BetaMonitor" where
  "BetaMonitor_init reference alert critical emergency =
     \<lparr> reference_beta = reference,
       alert_threshold = alert,
       critical_threshold = critical,
       emergency_threshold = emergency,
       current_beta = reference,
       beta_history = [],
       alert_status = ''NORMAL'',
       alert_callbacks = [],
       monitor_active = False \<rparr>"

text \<open>The constructor's default arguments: 0.310, 0.05, -0.05, -0.15.\<close>

definition BetaMonitor_default :: "'w BetaMonitor" where
  "BetaMonitor_default =
     BetaMonitor_init (Finite (310 / 1000)) (Finite (5 / 100))
       (Finite (- (5 / 100))) (Finite (- (15 / 100)))"

definition register_alert_callback ::
  "'w BetaMonitor \<Rightarrow> 'w callback \<Rightarrow> 'w BetaMonitor" where
  "register_alert_callback self callback =
     self\<lparr>alert_callbacks := alert_callbacks self @ [callback]\<rparr>"

text \<open>
  The \<^verbatim>\<open>if/elif\<close> chain of \<^verbatim>\<open>update_beta\<close> (lines 231 to 238) that chooses the new
  \<^verbatim>\<open>alert_status\<close>.
\<close>

definition classify :: "'w BetaMonitor \<Rightarrow> pyfloat \<Rightarrow> string" where
  "classify self new_beta =
     (if fle new_beta (emergency_threshold self) then ''EMERGENCY''
      else if fle new_beta (critical_threshold self) then ''CRITICAL''
      else if fle new_beta (alert_threshold self) then ''ALERT''
      else ''NORMAL'')"

text \<open>
  The loop of \<^verbatim>\<open>_notify_callbacks\<close>: each callback is called with the status and the
  value. A \<^verbatim>\<open>BaseException\<close> outside \<^verbatim>\<open>Exception\<close> is not caught: it leaves the loop and
  propagates. An \<^verbatim>\<open>Exception\<close> \<open>e\<close> is caught, and the handler runs
  \<^verbatim>\<open>logging.error(f"Error in callback: {e}")\<close>, which evaluates \<^verbatim>\<open>str(e)\<close>: when that
  returns, the loop goes on with the next callback; when it raises, the new exception
  leaves the handler and the loop, and propagates.
\<close>

fun notify_loop :: "'w callback list \<Rightarrow> string \<Rightarrow> pyfloat \<Rightarrow> 'w \<Rightarrow> 'w outcome" where
  "notify_loop [] status beta w = Returned w"
| "notify_loop (callback # rest) status beta w =
     (case callback status beta w of
        Returned w' \<Rightarrow> notify_loop rest status beta w'
      | Raised e w' \<Rightarrow>
          (case e of
             Exception str_e \<Rightarrow>
               (case str_e of
                  Inr msg \<Rightarrow> notify_loop rest status beta w'
                | Inl e' \<Rightarrow> Raised e' w')
           | BaseException n \<Rightarrow> Raised e w'))"

definition notify_callbacks :: "'w BetaMonitor \<Rightarrow> 'w \<Rightarrow> 'w outcome" where
  "notify_callbacks self w =
     notify_loop (alert_callbacks self) (alert_status self) (current_beta self) w"

text \<open>
  \<^verbatim>\<open>update_beta\<close>: store the value, append it to the history, keep the last 1000
  entries, choose the status, and notify the callbacks when the status changed. The
  result is the monitor after the call and the outcome of the call.
\<close>

definition update_beta ::
  "'w BetaMonitor \<Rightarrow> pyfloat \<Rightarrow> 'w \<Rightarrow> 'w BetaMonitor \<times> 'w outcome" where
  "update_beta self new_beta w =
     (let self1 = self\<lparr>current_beta := new_beta\<rparr>;
          self2 = self1\<lparr>beta_history := beta_history self1 @ [new_beta]\<rparr>;
          self3 = (if length (beta_history self2) > 1000
                   then self2\<lparr>beta_history :=
                          drop (length (beta_history self2) - 1000) (beta_history self2)\<rparr>
                   else self2);
          previous_status = alert_status self3;
          self4 = self3\<lparr>alert_status := classify self3 new_beta\<rparr>
      in if previous_status \<noteq> alert_status self4
         then (self4, notify_callbacks self4 w)
         else (self4, Returned w))"

text \<open>
  A caller that feeds a sequence of values, one \<^verbatim>\<open>update_beta\<close> call each, as the
  loop of \<^verbatim>\<open>run_beta_monitoring_demo\<close> does. An exception that leaves
  \<^verbatim>\<open>update_beta\<close> ends the loop.
\<close>

fun feed :: "'w BetaMonitor \<Rightarrow> pyfloat list \<Rightarrow> 'w \<Rightarrow> 'w BetaMonitor \<times> 'w outcome" where
  "feed self [] w = (self, Returned w)"
| "feed self (v # vs) w =
     (case update_beta self v w of
        (self', Returned w') \<Rightarrow> feed self' vs w'
      | (self', Raised e w') \<Rightarrow> (self', Raised e w'))"

section \<open>QDTSystemCorrector\<close>

text \<open>
  An entry of \<^verbatim>\<open>corrective_actions_history\<close>: the dictionary built in
  \<^verbatim>\<open>apply_corrective_action\<close>, with its five keys as fields (the key
  \<^verbatim>\<open>'alert_status'\<close> is the field \<open>action_alert_status\<close>, since the monitor has a
  field of that name).
\<close>

record CorrectiveAction =
  timestamp :: real
  action_alert_status :: string
  beta_value :: pyfloat
  action :: string
  correction_factor :: pyfloat

text \<open>
  The corrector's own state. Its \<^verbatim>\<open>beta_monitor\<close> attribute is a reference to the
  monitor; the operations below take that monitor as their first argument.
\<close>

record QDTSystemCorrector =
  corrective_actions_history :: "CorrectiveAction list"

text \<open>The dictionary returned by \<^verbatim>\<open>get_correction_parameters\<close>.\<close>

record CorrectionParameters =
  void_energy_boost :: pyfloat
  lambda_adjustment :: pyfloat
  gamma_increase :: pyfloat
  stabilization_factor :: pyfloat

text \<open>
  \<^verbatim>\<open>apply_corrective_action\<close>; \<open>now\<close> is the reading of \<^verbatim>\<open>time.time()\<close>. The
  result is the corrector after the call and the returned correction factor.
\<close>

definition apply_corrective_action ::
  "'w BetaMonitor \<Rightarrow> QDTSystemCorrector \<Rightarrow> real \<Rightarrow> string \<Rightarrow> pyfloat \<Rightarrow>
     QDTSystemCorrector \<times> pyfloat" where
  "apply_corrective_action beta_monitor self now status beta =
     (let correction_needed = fsub (reference_beta beta_monitor) beta;
          (factor, act) =
            (if status = ''EMERGENCY''
             then (py_min (Finite 1) (fdiv correction_needed (5 / 10)), ''EMERGENCY_RESET'')
             else if status = ''CRITICAL''
             then (py_min (Finite (7 / 10)) (fdiv correction_needed (6 / 10)),
                   ''STRONG_CORRECTION'')
             else (py_min (Finite (3 / 10)) (fdiv correction_needed (8 / 10)),
                   ''GENTLE_CORRECTION''))
      in (self\<lparr>corrective_actions_history :=
                  corrective_actions_history self @
                    [\<lparr> timestamp = now,
                       action_alert_status = status,
                       beta_value = beta,
                       action = act,
                       correction_factor = factor \<rparr>]\<rparr>,
          factor))"

text \<open>\<^verbatim>\<open>alert_handler\<close>, the method the corrector registers with the monitor.\<close>

definition alert_handler ::
  "'w BetaMonitor \<Rightarrow> QDTSystemCorrector \<Rightarrow> real \<Rightarrow> string \<Rightarrow> pyfloat \<Rightarrow> QDTSystemCorrector" where
  "alert_handler beta_monitor self now status beta =
     (if status \<in> set [''ALERT'', ''CRITICAL'', ''EMERGENCY'']
      then fst (apply_corrective_action beta_monitor self now status beta)
      else self)"

text \<open>\<^verbatim>\<open>get_correction_parameters\<close>.\<close>

definition get_correction_parameters :: "QDTSystemCorrector \<Rightarrow> CorrectionParameters" where
  "get_correction_parameters self =
     (if corrective_actions_history self = []
      then \<lparr> void_energy_boost = Finite 0,
             lambda_adjustment = Finite 0,
             gamma_increase = Finite 0,
             stabilization_factor = Finite 1 \<rparr>
      else
        let last_correction = last (corrective_actions_history self);
            factor = correction_factor last_correction
        in if action last_correction = ''EMERGENCY_RESET''
           then \<lparr> void_energy_boost = fmul (Finite (5 / 10)) factor,
                  lambda_adjustment = fmul (Finite (1 / 10)) factor,
                  gamma_increase = fmul (Finite (2 / 10)) factor,
                  stabilization_factor = fadd (Finite 1) factor \<rparr>
           else if action last_correction = ''STRONG_CORRECTION''
           then \<lparr> void_energy_boost = fmul (Finite (3 / 10)) factor,
                  lambda_adjustment = fmul (Finite (5 / 100)) factor,
                  gamma_increase = fmul (Finite (1 / 10)) factor,
                  stabilization_factor = fadd (Finite 1) (fmul (Finite (7 / 10)) factor) \<rparr>
           else \<lparr> void_energy_boost = fmul (Finite (1 / 10)) factor,
                  lambda_adjustment = fmul (Finite (2 / 100)) factor,
                  gamma_increase = fmul (Finite (5 / 100)) factor,
                  stabilization_factor = fadd (Finite 1) (fmul (Finite (3 / 10)) factor) \<rparr>)"

text \<open>
  \<^verbatim>\<open>QDTSystemCorrector.__init__\<close>: an empty action history, and the handler registered
  with the monitor. The handler reads \<^verbatim>\<open>reference_beta\<close> through the monitor, which
  no operation assigns after construction.
\<close>

definition QDTSystemCorrector_init ::
  "QDTSystemCorrector BetaMonitor \<Rightarrow> real \<Rightarrow>
     QDTSystemCorrector BetaMonitor \<times> QDTSystemCorrector" where
  "QDTSystemCorrector_init beta_monitor now =
     (register_alert_callback beta_monitor
        (\<lambda>status beta self. Returned (alert_handler beta_monitor self now status beta)),
      \<lparr> corrective_actions_history = [] \<rparr>)"

section \<open>Notions used to state the properties\<close>

text \<open>
  Every fault of a callback of the monitor is absorbed by \<^verbatim>\<open>_notify_callbacks\<close>: it is
  an \<^verbatim>\<open>Exception\<close> whose \<^verbatim>\<open>str\<close> returns.
\<close>

definition safe_callbacks :: "'w BetaMonitor \<Rightarrow> bool" where
  "safe_callbacks self =
     (\<forall>callback \<in> set (alert_callbacks self). \<forall>status beta w.
        \<not> escapes (callback status beta w))"

text \<open>
  The severity transitions of a sequence of values, as the specification words them:
  a value is a transition when its classification differs from the severity stored
  before it; the entry is the pair the subscribers are to receive.
\<close>

fun transitions :: "'w BetaMonitor \<Rightarrow> string \<Rightarrow> pyfloat list \<Rightarrow> (string \<times> pyfloat) list" where
  "transitions self previous [] = []"
| "transitions self previous (v # vs) =
     (if classify self v \<noteq> previous
      then (classify self v, v) # transitions self (classify self v) vs
      else transitions self previous vs)"

section \<open>Basic facts about the monitor\<close>

lemma classify_update [simp]:
  "classify (self\<lparr>current_beta := b\<rparr>) v = classify self v"
  "classify (self\<lparr>beta_history := h\<rparr>) v = classify self v"
  "classify (self\<lparr>alert_status := s\<rparr>) v = classify self v"
  by (simp_all add: classify_def)

lemma transitions_update [simp]:
  "transitions (self\<lparr>current_beta := b\<rparr>) p vs = transitions self p vs"
  "transitions (self\<lparr>beta_history := h\<rparr>) p vs = transitions self p vs"
  "transitions (self\<lparr>alert_status := s\<rparr>) p vs = transitions self p vs"
  by (induction vs arbitrary: p; simp)+

lemma safe_callbacks_update [simp]:
  "safe_callbacks (self\<lparr>current_beta := b\<rparr>) = safe_callbacks self"
  "safe_callbacks (self\<lparr>beta_history := h\<rparr>) = safe_callbacks self"
  "safe_callbacks (self\<lparr>alert_status := s\<rparr>) = safe_callbacks self"
  by (simp_all add: safe_callbacks_def)

lemma update_beta_monitor:
  "fst (update_beta self v w) =
     self\<lparr>current_beta := v,
          beta_history := drop (Suc (length (beta_history self)) - 1000) (beta_history self @ [v]),
          alert_status := classify self v\<rparr>"
  by (simp add: update_beta_def Let_def)

lemma update_beta_outcome:
  "snd (update_beta self v w) =
     (if alert_status self \<noteq> classify self v
      then notify_loop (alert_callbacks self) (classify self v) v w
      else Returned w)"
  by (simp add: update_beta_def Let_def notify_callbacks_def)

lemma notify_loop_safe:
  "\<forall>cb \<in> set cbs. \<forall>s b w. \<not> escapes (cb s b w) \<Longrightarrow>
   notify_loop cbs status beta w =
     Returned (foldl (\<lambda>w cb. world_after (cb status beta w)) w cbs)"
proof (induction cbs arbitrary: w)
  case Nil
  then show ?case by simp
next
  case (Cons cb cbs)
  show ?case
  proof (cases "cb status beta w")
    case (Returned w')
    with Cons show ?thesis by simp
  next
    case (Raised e w')
    have "\<not> escapes (cb status beta w)" using Cons.prems by simp
    then have ne: "\<not> escapes (Raised e w')" using Raised by simp
    obtain msg where "e = Exception (Inr msg)"
    proof (cases e)
      case (Exception str_e)
      then show ?thesis using ne that by (cases str_e) auto
    next
      case (BaseException n)
      then show ?thesis using ne by simp
    qed
    with Raised Cons show ?thesis by simp
  qed
qed


lemma update_beta_returns:
  "safe_callbacks self \<Longrightarrow> \<exists>w'. snd (update_beta self v w) = Returned w'"
  by (simp add: update_beta_outcome safe_callbacks_def notify_loop_safe)

lemma feed_step:
  "feed self (v # vs) w =
     (case snd (update_beta self v w) of
        Returned w' \<Rightarrow> feed (fst (update_beta self v w)) vs w'
      | Raised e w' \<Rightarrow> (fst (update_beta self v w), Raised e w'))"
  by (cases "update_beta self v w") (simp split: outcome.splits)




lemma drop_trim:
  "drop (length (drop (length xs - n) xs @ ys) - n) (drop (length xs - n) xs @ ys) =
   drop (length (xs @ ys) - n) (xs @ ys)"
  by (cases "length xs \<le> n") (auto simp add: add.commute)

lemma feed_history:
  "safe_callbacks self \<Longrightarrow> length (beta_history self) \<le> 1000 \<Longrightarrow>
   beta_history (fst (feed self vs w)) =
     drop (length (beta_history self @ vs) - 1000) (beta_history self @ vs)"
proof (induction vs arbitrary: self w)
  case Nil
  then show ?case by simp
next
  case (Cons v vs)
  let ?self' = "fst (update_beta self v w)"
  have safe': "safe_callbacks ?self'" using Cons.prems by (simp add: update_beta_monitor)
  have len': "length (beta_history ?self') \<le> 1000" by (simp add: update_beta_monitor)
  obtain w' where ret: "snd (update_beta self v w) = Returned w'"
    using update_beta_returns [OF Cons.prems(1)] by blast
  have "feed self (v # vs) w = feed ?self' vs w'"
    using ret by (simp add: feed_step del: feed.simps(2))
  then have "beta_history (fst (feed self (v # vs) w)) =
      drop (length (beta_history ?self' @ vs) - 1000) (beta_history ?self' @ vs)"
    using Cons.IH [OF safe' len', of w'] by simp
  also have "\<dots> = drop (length ((beta_history self @ [v]) @ vs) - 1000) ((beta_history self @ [v]) @ vs)"
    using drop_trim [of "beta_history self @ [v]" 1000 vs] by (simp add: update_beta_monitor)
  finally show ?case by simp
qed



section \<open>Basic facts about the correction factor\<close>

lemma fsub_not_below_zero:
  "\<not> flt r b \<Longrightarrow> \<not> flt (fsub r b) (Finite 0)"
  by (cases b; cases r) (simp_all add: fsub_def)

lemma fsub_below_zero:
  "flt r b \<Longrightarrow> flt (fsub r b) (Finite 0)"
  by (cases b; cases r) (simp_all add: fsub_def)

lemma py_min_cap_bounds:
  assumes "0 < c" "0 \<le> cap" "cap \<le> 1" "\<not> flt d (Finite 0)"
  shows "fle (Finite 0) (py_min (Finite cap) (fdiv d c)) \<and>
         fle (py_min (Finite cap) (fdiv d c)) (Finite 1)"
proof (cases d)
  case (Finite x)
  have x: "0 \<le> x" using assms(4) Finite by simp
  have q: "0 \<le> x / c" using x assms(1) by simp
  show ?thesis
  proof (cases "x / c < cap")
    case True
    then have "py_min (Finite cap) (fdiv d c) = Finite (x / c)"
      using Finite assms(1) by (simp add: py_min_def fdiv_def)
    moreover have "x / c \<le> 1" using True assms(3) by linarith
    ultimately show ?thesis using q by (simp del: divide_le_eq_1_pos)
  next
    case False
    then have "py_min (Finite cap) (fdiv d c) = Finite cap"
      using Finite assms(1) by (simp add: py_min_def fdiv_def)
    then show ?thesis using assms(2,3) by simp
  qed
qed (use assms in \<open>simp_all add: py_min_def fdiv_def\<close>)

lemma py_min_below_zero:
  assumes "0 < c" "0 \<le> cap" "flt d (Finite 0)"
  shows "py_min (Finite cap) (fdiv d c) = fdiv d c \<and> flt (fdiv d c) (Finite 0)"
proof (cases d)
  case (Finite x)
  have x: "x < 0" using assms(3) Finite by simp
  then have q: "x / c < 0" using assms(1) by (simp add: divide_neg_pos)
  then have "x / c < cap" using assms(2) by linarith
  then show ?thesis using Finite assms(1) q by (simp add: py_min_def fdiv_def)
qed (use assms in \<open>simp_all add: py_min_def fdiv_def\<close>)

section \<open>Properties of the monitor and the corrector\<close>

subsection \<open>Non-finite values\<close>




subsection \<open>Correction factor\<close>

text \<open>
  The claim that the correction factor lies in [0, 1] for every value fails above the
  reference: with reference 0.31, status \<^verbatim>\<open>ALERT\<close> and value 1.0 the recorded factor is
  (0.31 - 1.0) / 0.8 = -0.8625.
\<close>

theorem negative_correction_factor_counterexample:
  "correction_factor (last (corrective_actions_history (fst
      (apply_corrective_action (BetaMonitor_default :: unit BetaMonitor)
         \<lparr>corrective_actions_history = []\<rparr> 0 ''ALERT'' (Finite 1))))) = Finite (- (69 / 80)) \<and>
   \<not> fle (Finite 0) (Finite (- (69 / 80)))"
  by (simp add: apply_corrective_action_def Let_def BetaMonitor_default_def BetaMonitor_init_def
      fsub_def fdiv_def py_min_def)

text \<open>
  C2, as the code has it: the factor is capped from above only. For every status and
  every value, the factor returned by \<^verbatim>\<open>apply_corrective_action\<close> is the factor stored
  in the record appended to the action history. When the value is not above the reference
  (Python's \<^verbatim>\<open>reference < value\<close> is false, which includes a NaN value or reference),
  the factor lies in [0, 1]. When the value is above the reference, the factor is the
  quotient (reference - value) / d, with d = 0.5 for \<^verbatim>\<open>EMERGENCY\<close>, 0.6 for
  \<^verbatim>\<open>CRITICAL\<close> and 0.8 otherwise, and it is negative.
\<close>

theorem correction_factor_range:
  "corrective_actions_history (fst (apply_corrective_action beta_monitor self now status beta))
     = corrective_actions_history self @
         [\<lparr> timestamp = now, action_alert_status = status, beta_value = beta,
            action = (if status = ''EMERGENCY'' then ''EMERGENCY_RESET''
                      else if status = ''CRITICAL'' then ''STRONG_CORRECTION''
                      else ''GENTLE_CORRECTION''),
            correction_factor =
              snd (apply_corrective_action beta_monitor self now status beta) \<rparr>] \<and>
   (\<not> flt (reference_beta beta_monitor) beta \<longrightarrow>
      fle (Finite 0) (snd (apply_corrective_action beta_monitor self now status beta)) \<and>
      fle (snd (apply_corrective_action beta_monitor self now status beta)) (Finite 1)) \<and>
   (flt (reference_beta beta_monitor) beta \<longrightarrow>
      snd (apply_corrective_action beta_monitor self now status beta) =
        fdiv (fsub (reference_beta beta_monitor) beta)
          (if status = ''EMERGENCY'' then 5 / 10
           else if status = ''CRITICAL'' then 6 / 10 else 8 / 10) \<and>
      flt (snd (apply_corrective_action beta_monitor self now status beta)) (Finite 0))"
proof -
  let ?d = "fsub (reference_beta beta_monitor) beta"
  let ?r = "apply_corrective_action beta_monitor self now status beta"
  have factor: "snd ?r =
      (if status = ''EMERGENCY'' then py_min (Finite 1) (fdiv ?d (5 / 10))
       else if status = ''CRITICAL'' then py_min (Finite (7 / 10)) (fdiv ?d (6 / 10))
       else py_min (Finite (3 / 10)) (fdiv ?d (8 / 10)))"
    by (simp add: apply_corrective_action_def Let_def)
  have stored: "corrective_actions_history (fst ?r)
     = corrective_actions_history self @
         [\<lparr> timestamp = now, action_alert_status = status, beta_value = beta,
            action = (if status = ''EMERGENCY'' then ''EMERGENCY_RESET''
                      else if status = ''CRITICAL'' then ''STRONG_CORRECTION''
                      else ''GENTLE_CORRECTION''),
            correction_factor = snd ?r \<rparr>]"
    by (simp add: apply_corrective_action_def Let_def)
  have inside: "fle (Finite 0) (snd ?r) \<and> fle (snd ?r) (Finite 1)"
    if "\<not> flt (reference_beta beta_monitor) beta"
  proof -
    have d: "\<not> flt ?d (Finite 0)" using that by (rule fsub_not_below_zero)
    have "fle (Finite 0) (py_min (Finite 1) (fdiv ?d (5 / 10))) \<and>
          fle (py_min (Finite 1) (fdiv ?d (5 / 10))) (Finite 1)"
      using d by (intro py_min_cap_bounds) simp_all
    moreover have "fle (Finite 0) (py_min (Finite (7 / 10)) (fdiv ?d (6 / 10))) \<and>
          fle (py_min (Finite (7 / 10)) (fdiv ?d (6 / 10))) (Finite 1)"
      using d by (intro py_min_cap_bounds) simp_all
    moreover have "fle (Finite 0) (py_min (Finite (3 / 10)) (fdiv ?d (8 / 10))) \<and>
          fle (py_min (Finite (3 / 10)) (fdiv ?d (8 / 10))) (Finite 1)"
      using d by (intro py_min_cap_bounds) simp_all
    ultimately show ?thesis by (simp add: factor)
  qed
  have below: "snd ?r = fdiv ?d (if status = ''EMERGENCY'' then 5 / 10
                                 else if status = ''CRITICAL'' then 6 / 10 else 8 / 10) \<and>
               flt (snd ?r) (Finite 0)"
    if "flt (reference_beta beta_monitor) beta"
  proof -
    have d: "flt ?d (Finite 0)" using that by (rule fsub_below_zero)
    have "py_min (Finite 1) (fdiv ?d (5 / 10)) = fdiv ?d (5 / 10) \<and>
          flt (fdiv ?d (5 / 10)) (Finite 0)"
      using d by (intro py_min_below_zero) simp_all
    moreover have "py_min (Finite (7 / 10)) (fdiv ?d (6 / 10)) = fdiv ?d (6 / 10) \<and>
          flt (fdiv ?d (6 / 10)) (Finite 0)"
      using d by (intro py_min_below_zero) simp_all
    moreover have "py_min (Finite (3 / 10)) (fdiv ?d (8 / 10)) = fdiv ?d (8 / 10) \<and>
          flt (fdiv ?d (8 / 10)) (Finite 0)"
      using d by (intro py_min_below_zero) simp_all
    ultimately show ?thesis by (simp add: factor)
  qed
  show ?thesis using stored inside below by blast
qed

theorem correction_factor_range_witness:
  "\<not> flt (reference_beta (BetaMonitor_default :: unit BetaMonitor)) NaN \<and>
   snd (apply_corrective_action (BetaMonitor_default :: unit BetaMonitor)
          \<lparr>corrective_actions_history = []\<rparr> 0 ''CRITICAL'' NaN) = Finite (7 / 10) \<and>
   \<not> flt (reference_beta (BetaMonitor_default :: unit BetaMonitor)) (Finite (- (6 / 100))) \<and>
   fle (Finite 0) (snd (apply_corrective_action (BetaMonitor_default :: unit BetaMonitor)
          \<lparr>corrective_actions_history = []\<rparr> 0 ''CRITICAL'' (Finite (- (6 / 100))))) \<and>
   fle (snd (apply_corrective_action (BetaMonitor_default :: unit BetaMonitor)
          \<lparr>corrective_actions_history = []\<rparr> 0 ''CRITICAL'' (Finite (- (6 / 100))))) (Finite 1) \<and>
   flt (reference_beta (BetaMonitor_default :: unit BetaMonitor)) (Finite (81 / 100)) \<and>
   snd (apply_corrective_action (BetaMonitor_default :: unit BetaMonitor)
          \<lparr>corrective_actions_history = []\<rparr> 0 ''EMERGENCY'' (Finite (81 / 100))) = Finite (- 1) \<and>
   flt (snd (apply_corrective_action (BetaMonitor_default :: unit BetaMonitor)
          \<lparr>corrective_actions_history = []\<rparr> 0 ''EMERGENCY'' (Finite (81 / 100)))) (Finite 0)"
proof -
  have ref: "reference_beta (BetaMonitor_default :: unit BetaMonitor) = Finite (31 / 100)"
    by (simp add: BetaMonitor_default_def BetaMonitor_init_def)
  have h1: "\<not> flt (reference_beta (BetaMonitor_default :: unit BetaMonitor)) NaN"
    by (simp add: ref)
  have h2: "\<not> flt (reference_beta (BetaMonitor_default :: unit BetaMonitor)) (Finite (- (6 / 100)))"
    by (simp add: ref)
  have h3: "flt (reference_beta (BetaMonitor_default :: unit BetaMonitor)) (Finite (81 / 100))"
    by (simp add: ref)
  have nan: "snd (apply_corrective_action (BetaMonitor_default :: unit BetaMonitor)
          \<lparr>corrective_actions_history = []\<rparr> 0 ''CRITICAL'' NaN) = Finite (7 / 10)"
    by (simp add: apply_corrective_action_def Let_def ref fsub_def fdiv_def py_min_def)
  have above: "snd (apply_corrective_action (BetaMonitor_default :: unit BetaMonitor)
          \<lparr>corrective_actions_history = []\<rparr> 0 ''EMERGENCY'' (Finite (81 / 100))) = Finite (- 1)"
    using h3 correction_factor_range
      [of "BetaMonitor_default :: unit BetaMonitor" "\<lparr>corrective_actions_history = []\<rparr>" 0
          "''EMERGENCY''" "Finite (81 / 100)"]
    by (simp add: ref fsub_def fdiv_def)
  show ?thesis
    using h1 h2 h3 nan above
      correction_factor_range
        [of "BetaMonitor_default :: unit BetaMonitor" "\<lparr>corrective_actions_history = []\<rparr>" 0
            "''CRITICAL''" "Finite (- (6 / 100))"]
      correction_factor_range
        [of "BetaMonitor_default :: unit BetaMonitor" "\<lparr>corrective_actions_history = []\<rparr>" 0
            "''EMERGENCY''" "Finite (81 / 100)"]
    by blast
qed

subsection \<open>Fault isolation of callbacks\<close>




subsection \<open>Classification\<close>

text \<open>
  C5: for a finite value and thresholds with emergency < critical < alert < reference,
  the status after \<^verbatim>\<open>update_beta\<close> is \<^verbatim>\<open>EMERGENCY\<close> if the value is at most the
  emergency threshold, else \<^verbatim>\<open>CRITICAL\<close> if at most the critical one, else \<^verbatim>\<open>ALERT\<close>
  if at most the alert one, else \<^verbatim>\<open>NORMAL\<close>. The four statuses are the four bands of
  the value, so a value below several thresholds gets the most severe status.
\<close>

theorem classification_bands:
  assumes "flt (emergency_threshold self) (critical_threshold self)"
    and "flt (critical_threshold self) (alert_threshold self)"
    and "flt (alert_threshold self) (reference_beta self)"
  shows "alert_status (fst (update_beta self (Finite x) w)) =
           (if fle (Finite x) (emergency_threshold self) then ''EMERGENCY''
            else if fle (Finite x) (critical_threshold self) then ''CRITICAL''
            else if fle (Finite x) (alert_threshold self) then ''ALERT''
            else ''NORMAL'') \<and>
         ((alert_status (fst (update_beta self (Finite x) w)) = ''EMERGENCY'') =
            fle (Finite x) (emergency_threshold self)) \<and>
         ((alert_status (fst (update_beta self (Finite x) w)) = ''CRITICAL'') =
            (flt (emergency_threshold self) (Finite x) \<and> fle (Finite x) (critical_threshold self))) \<and>
         ((alert_status (fst (update_beta self (Finite x) w)) = ''ALERT'') =
            (flt (critical_threshold self) (Finite x) \<and> fle (Finite x) (alert_threshold self))) \<and>
         ((alert_status (fst (update_beta self (Finite x) w)) = ''NORMAL'') =
            flt (alert_threshold self) (Finite x))"
  using assms
  by (cases "emergency_threshold self"; cases "critical_threshold self";
      cases "alert_threshold self")
     (auto simp add: update_beta_monitor classify_def)

theorem classification_bands_witness:
  "flt (emergency_threshold (BetaMonitor_default :: unit BetaMonitor))
       (critical_threshold (BetaMonitor_default :: unit BetaMonitor)) \<and>
   flt (critical_threshold (BetaMonitor_default :: unit BetaMonitor))
       (alert_threshold (BetaMonitor_default :: unit BetaMonitor)) \<and>
   flt (alert_threshold (BetaMonitor_default :: unit BetaMonitor))
       (reference_beta (BetaMonitor_default :: unit BetaMonitor)) \<and>
   fle (Finite (- (20 / 100))) (alert_threshold (BetaMonitor_default :: unit BetaMonitor)) \<and>
   fle (Finite (- (20 / 100))) (critical_threshold (BetaMonitor_default :: unit BetaMonitor)) \<and>
   fle (Finite (- (20 / 100))) (emergency_threshold (BetaMonitor_default :: unit BetaMonitor)) \<and>
   alert_status (fst (update_beta (BetaMonitor_default :: unit BetaMonitor)
                        (Finite (- (20 / 100))) ())) = ''EMERGENCY''"
  using classification_bands [of "BetaMonitor_default :: unit BetaMonitor" "- (20 / 100)" "()"]
  by (simp add: BetaMonitor_default_def BetaMonitor_init_def)

text \<open>
  The claim that every value at or above the alert threshold is \<^verbatim>\<open>NORMAL\<close> fails at
  the threshold itself: with the default thresholds, 0.05 is classified \<^verbatim>\<open>ALERT\<close>.
\<close>

theorem at_alert_threshold_counterexample:
  "fle (alert_threshold (BetaMonitor_default :: unit BetaMonitor)) (Finite (5 / 100)) \<and>
   alert_status (fst (update_beta (BetaMonitor_default :: unit BetaMonitor) (Finite (5 / 100)) ()))
     = ''ALERT'' \<and>
   alert_status (fst (update_beta (BetaMonitor_default :: unit BetaMonitor) (Finite (5 / 100)) ()))
     \<noteq> ''NORMAL''"
  by (simp add: update_beta_monitor classify_def BetaMonitor_default_def BetaMonitor_init_def)

text \<open>
  C6, as the code has it: with emergency < critical < alert, every value strictly above
  the alert threshold is classified \<^verbatim>\<open>NORMAL\<close>, and the alert threshold itself is
  classified \<^verbatim>\<open>ALERT\<close>.
\<close>

theorem above_alert_threshold_normal:
  assumes "flt (emergency_threshold self) (critical_threshold self)"
    and "flt (critical_threshold self) (alert_threshold self)"
  shows "(flt (alert_threshold self) v \<longrightarrow>
            alert_status (fst (update_beta self v w)) = ''NORMAL'') \<and>
         alert_status (fst (update_beta self (alert_threshold self) w)) = ''ALERT''"
  using assms
  by (cases "emergency_threshold self"; cases "critical_threshold self";
      cases "alert_threshold self"; cases v)
     (auto simp add: update_beta_monitor classify_def)

theorem above_alert_threshold_normal_witness:
  "flt (emergency_threshold (BetaMonitor_default :: unit BetaMonitor))
       (critical_threshold (BetaMonitor_default :: unit BetaMonitor)) \<and>
   flt (critical_threshold (BetaMonitor_default :: unit BetaMonitor))
       (alert_threshold (BetaMonitor_default :: unit BetaMonitor)) \<and>
   flt (alert_threshold (BetaMonitor_default :: unit BetaMonitor)) (Finite (6 / 100)) \<and>
   alert_status (fst (update_beta (BetaMonitor_default :: unit BetaMonitor)
                        (Finite (6 / 100)) ())) = ''NORMAL''"
  using above_alert_threshold_normal
    [of "BetaMonitor_default :: unit BetaMonitor" "Finite (6 / 100)" "()"]
  by (simp add: BetaMonitor_default_def BetaMonitor_init_def)

subsection \<open>Recording of values\<close>

text \<open>
  C10: for every float, NaN and the infinities included, \<^verbatim>\<open>update_beta\<close> stores the
  value as the current one and as the newest entry of the history, which is the old
  history with the value appended and cut to its last 1000 entries.
\<close>

theorem update_records_every_value:
  "current_beta (fst (update_beta self v w)) = v \<and>
   beta_history (fst (update_beta self v w)) \<noteq> [] \<and>
   last (beta_history (fst (update_beta self v w))) = v \<and>
   beta_history (fst (update_beta self v w)) =
     drop (Suc (length (beta_history self)) - 1000) (beta_history self @ [v])"
  by (simp add: update_beta_monitor)

subsection \<open>Notification on transitions\<close>




subsection \<open>History buffer\<close>

text \<open>
  C7: the history holds at most 1000 values after every \<^verbatim>\<open>update_beta\<close> (1000 is the
  capacity written in the source). Starting from the empty history, after 1000 + k
  values with k > 0 it holds exactly the last 1000 of them, in the order they were fed:
  the k oldest are gone.
\<close>

theorem history_keeps_last_1000:
  "length (beta_history (fst (update_beta self v w))) \<le> 1000 \<and>
   (safe_callbacks self \<and> length (beta_history self) \<le> 1000 \<longrightarrow>
      length (beta_history (fst (feed self vs w))) \<le> 1000) \<and>
   (safe_callbacks self \<and> beta_history self = [] \<and> length vs = 1000 + k \<and> 0 < k \<longrightarrow>
      beta_history (fst (feed self vs w)) = drop k vs \<and>
      length (beta_history (fst (feed self vs w))) = 1000)"
proof -
  have step: "length (beta_history (fst (update_beta self v w))) \<le> 1000"
    by (simp add: update_beta_monitor)
  have bound: "length (beta_history (fst (feed self vs w))) \<le> 1000"
    if "safe_callbacks self" "length (beta_history self) \<le> 1000"
    using feed_history [OF that, of vs w] by simp
  have last: "beta_history (fst (feed self vs w)) = drop k vs \<and>
      length (beta_history (fst (feed self vs w))) = 1000"
    if "safe_callbacks self" "beta_history self = []" "length vs = 1000 + k" "0 < k"
    using feed_history [OF that(1), of vs w] that(2,3) by simp
  show ?thesis using step bound last by blast
qed

theorem history_keeps_last_1000_witness:
  "safe_callbacks (BetaMonitor_default :: unit BetaMonitor) \<and>
   beta_history (BetaMonitor_default :: unit BetaMonitor) = [] \<and>
   length (map (\<lambda>n. Finite (real n)) [0..<1002]) = 1000 + 2 \<and>
   (0::nat) < 2 \<and>
   beta_history (fst (feed (BetaMonitor_default :: unit BetaMonitor)
                        (map (\<lambda>n. Finite (real n)) [0..<1002]) ())) =
     map (\<lambda>n. Finite (real n)) [2..<1002]"
proof -
  have hyps: "safe_callbacks (BetaMonitor_default :: unit BetaMonitor) \<and>
      beta_history (BetaMonitor_default :: unit BetaMonitor) = [] \<and>
      length (map (\<lambda>n. Finite (real n)) [0..<1002]) = 1000 + 2 \<and> (0::nat) < 2"
    by (simp add: safe_callbacks_def BetaMonitor_default_def BetaMonitor_init_def)
  have "beta_history (fst (feed (BetaMonitor_default :: unit BetaMonitor)
                        (map (\<lambda>n. Finite (real n)) [0..<1002]) ())) =
          drop 2 (map (\<lambda>n. Finite (real n)) [0..<1002])"
    using hyps history_keeps_last_1000
      [of "BetaMonitor_default :: unit BetaMonitor" "Finite 0" "()"
          "map (\<lambda>n. Finite (real n)) [0..<1002]" 2]
    by blast
  also have "\<dots> = map (\<lambda>n. Finite (real n)) [2..<1002]"
    by (simp add: drop_map numeral_2_eq_2 del: upt_rec_numeral)
  finally show ?thesis using hyps by blast
qed

subsection \<open>Correction parameters\<close>

text \<open>
  C8: \<^verbatim>\<open>get_correction_parameters\<close> depends on the last recorded action only. When
  that action is an \<^verbatim>\<open>EMERGENCY_RESET\<close> with factor f, the parameters are 0.5 f, 0.1 f,
  0.2 f and 1 + f. With reference 0.31, an \<^verbatim>\<open>EMERGENCY\<close> at value -0.20 (deviation 0.51)
  gives the factor 1.0 and the parameters 0.5, 0.1, 0.2 and 2.0.
\<close>

theorem parameters_from_last_action:
  "(corrective_actions_history c1 \<noteq> [] \<and> corrective_actions_history c2 \<noteq> [] \<and>
    last (corrective_actions_history c1) = last (corrective_actions_history c2) \<longrightarrow>
      get_correction_parameters c1 = get_correction_parameters c2) \<and>
   (corrective_actions_history self = earlier @ [a] \<and> action a = ''EMERGENCY_RESET'' \<longrightarrow>
      get_correction_parameters self =
        \<lparr> void_energy_boost = fmul (Finite (5 / 10)) (correction_factor a),
          lambda_adjustment = fmul (Finite (1 / 10)) (correction_factor a),
          gamma_increase = fmul (Finite (2 / 10)) (correction_factor a),
          stabilization_factor = fadd (Finite 1) (correction_factor a) \<rparr>) \<and>
   (reference_beta beta_monitor = Finite (31 / 100) \<longrightarrow>
      snd (apply_corrective_action beta_monitor c now ''EMERGENCY'' (Finite (- (20 / 100))))
        = Finite 1 \<and>
      get_correction_parameters
        (fst (apply_corrective_action beta_monitor c now ''EMERGENCY'' (Finite (- (20 / 100)))))
        = \<lparr> void_energy_boost = Finite (5 / 10),
            lambda_adjustment = Finite (1 / 10),
            gamma_increase = Finite (2 / 10),
            stabilization_factor = Finite 2 \<rparr>)"
  by (simp add: get_correction_parameters_def apply_corrective_action_def Let_def
      fsub_def fdiv_def py_min_def)

theorem parameters_from_last_action_witness:
  "reference_beta (BetaMonitor_default :: unit BetaMonitor) = Finite (31 / 100) \<and>
   corrective_actions_history
     (fst (apply_corrective_action (BetaMonitor_default :: unit BetaMonitor)
             \<lparr>corrective_actions_history = []\<rparr> 0 ''EMERGENCY'' (Finite (- (20 / 100))))) =
     [] @ [\<lparr> timestamp = 0, action_alert_status = ''EMERGENCY'',
             beta_value = Finite (- (20 / 100)), action = ''EMERGENCY_RESET'',
             correction_factor = Finite 1 \<rparr>] \<and>
   get_correction_parameters
     (fst (apply_corrective_action (BetaMonitor_default :: unit BetaMonitor)
             \<lparr>corrective_actions_history = []\<rparr> 0 ''EMERGENCY'' (Finite (- (20 / 100))))) =
     \<lparr> void_energy_boost = Finite (5 / 10), lambda_adjustment = Finite (1 / 10),
       gamma_increase = Finite (2 / 10), stabilization_factor = Finite 2 \<rparr>"
  using parameters_from_last_action
    [of "fst (apply_corrective_action (BetaMonitor_default :: unit BetaMonitor)
             \<lparr>corrective_actions_history = []\<rparr> 0 ''EMERGENCY'' (Finite (- (20 / 100))))"
        "fst (apply_corrective_action (BetaMonitor_default :: unit BetaMonitor)
             \<lparr>corrective_actions_history = []\<rparr> 0 ''EMERGENCY'' (Finite (- (20 / 100))))"
        "fst (apply_corrective_action (BetaMonitor_default :: unit BetaMonitor)
             \<lparr>corrective_actions_history = []\<rparr> 0 ''EMERGENCY'' (Finite (- (20 / 100))))"
        "[]"
        "\<lparr> timestamp = 0, action_alert_status = ''EMERGENCY'',
             beta_value = Finite (- (20 / 100)), action = ''EMERGENCY_RESET'',
             correction_factor = Finite 1 \<rparr>"
        "BetaMonitor_default :: unit BetaMonitor" "\<lparr>corrective_actions_history = []\<rparr>" 0]
  by (simp add: apply_corrective_action_def Let_def BetaMonitor_default_def
      BetaMonitor_init_def fsub_def fdiv_def py_min_def)

text \<open>
  C9: a corrector with no recorded action, as the constructor leaves it, returns the
  neutral parameters 0, 0, 0 and 1.0.
\<close>

theorem default_correction_parameters:
  "get_correction_parameters (snd (QDTSystemCorrector_init beta_monitor now)) =
     \<lparr> void_energy_boost = Finite 0, lambda_adjustment = Finite 0,
       gamma_increase = Finite 0, stabilization_factor = Finite 1 \<rparr> \<and>
   get_correction_parameters (self\<lparr>corrective_actions_history := []\<rparr>) =
     \<lparr> void_energy_boost = Finite 0, lambda_adjustment = Finite 0,
       gamma_increase = Finite 0, stabilization_factor = Finite 1 \<rparr>"
  by (simp add: get_correction_parameters_def QDTSystemCorrector_init_def)

end
